theory Spec2Isabelle
  imports Complex_Main
begin

section \<open>Route comparison: feature extraction and similarity scoring\<close>

text \<open>
  A shallow embedding of \<^verbatim>\<open>compare_gpx_routes.py\<close>.

  Numbers: the Python code computes with binary floating point. Here every float is a
  \<^typ>\<open>real\<close> and arithmetic is exact. What this leaves out, and what it keeps:
  \<^item> Rounding error is left out. In particular the haversine term \<open>a\<close> lies in \<open>[0, 1]\<close>
    in exact arithmetic, while the floating-point code can compute a value just above 1
    for end points that are nearly antipodal, and then raises at the square root. The
    properties below therefore never rely on \<^verbatim>\<open>haversine\<close> returning, except at
    equal points, where the floating-point computation is exact too.
  \<^item> Overflow that raises is kept: the power operator \<^verbatim>\<open>**\<close> raises
    \<^verbatim>\<open>OverflowError\<close> when its result leaves the double range. Overflow of
    \<^verbatim>\<open>+\<close>, \<^verbatim>\<open>*\<close> and \<^verbatim>\<open>/\<close>, which yields an infinity without raising,
    is left out.
  \<^item> Cells are finite numbers. The one exception is NaN in the grade column, which the
    source filters (\<^verbatim>\<open>math.isnan\<close>): a grade is a \<^typ>\<open>real option\<close>, \<open>None\<close>
    standing for NaN. A NaN or an infinity in another column is outside the model.

  Errors: every \<^verbatim>\<open>raise\<close> of the source, and every exception of a library call
  that the source makes, is a value \<open>Inl e\<close> of the result type.
\<close>

datatype error =
    ValueError string
  | KeyError string
  | ZeroDivisionError
  | OverflowError

subsection \<open>Library functions used by the source\<close>

text \<open>\<^verbatim>\<open>math.radians\<close>.\<close>

definition radians :: "real \<Rightarrow> real" where
  "radians x = x * pi / 180"

text \<open>\<^verbatim>\<open>math.sqrt\<close>: raises \<^verbatim>\<open>ValueError\<close> on a negative argument.\<close>

definition math_sqrt :: "real \<Rightarrow> error + real" where
  "math_sqrt x = (if x < 0 then Inl (ValueError ''math domain error'') else Inr (sqrt x))"

text \<open>\<^verbatim>\<open>math.atan2(y, x)\<close>: the angle of the point \<open>(x, y)\<close>, in \<open>(-pi, pi]\<close>.\<close>

definition atan2 :: "real \<Rightarrow> real \<Rightarrow> real" where
  "atan2 y x =
     (if 0 < x then arctan (y / x)
      else if x < 0 then (if 0 \<le> y then arctan (y / x) + pi else arctan (y / x) - pi)
      else if 0 < y then pi / 2
      else if y < 0 then - pi / 2
      else 0)"

text \<open>
  The float power \<^verbatim>\<open>x ** n\<close>: \<^verbatim>\<open>OverflowError\<close> when the result is too large for a
  double. A magnitude of at least \<open>2 ^ 1024 - 2 ^ 970\<close>, half a unit in the last place
  above the largest double, rounds to infinity.
\<close>

definition float_overflow_bound :: real where
  "float_overflow_bound = 2 ^ 1024 - 2 ^ 970"

definition float_pow :: "real \<Rightarrow> nat \<Rightarrow> error + real" where
  "float_pow x n =
     (if float_overflow_bound \<le> \<bar>x ^ n\<bar> then Inl OverflowError else Inr (x ^ n))"

text \<open>
  The builtins \<^verbatim>\<open>max\<close> and \<^verbatim>\<open>min\<close> on a list: the first element, replaced by each later
  element that is strictly greater (smaller); \<^verbatim>\<open>ValueError\<close> on the empty list.
\<close>

fun max_seq :: "real list \<Rightarrow> error + real" where
  "max_seq [] = Inl (ValueError ''max() arg is an empty sequence'')"
| "max_seq (x # xs) = Inr (foldl (\<lambda>m y. if m < y then y else m) x xs)"

fun min_seq :: "real list \<Rightarrow> error + real" where
  "min_seq [] = Inl (ValueError ''min() arg is an empty sequence'')"
| "min_seq (x # xs) = Inr (foldl (\<lambda>m y. if y < m then y else m) x xs)"

text \<open>
  The builtin \<^verbatim>\<open>round(x, ndigits)\<close>: the nearest multiple of \<open>10 ^ - ndigits\<close>, a tie
  going to the even one.
\<close>

definition round_half_even :: "real \<Rightarrow> int" where
  "round_half_even x =
     (let f = \<lfloor>x\<rfloor>; d = x - of_int f
      in if d < 1 / 2 then f
         else if 1 / 2 < d then f + 1
         else if even f then f else f + 1)"

definition round_py :: "real \<Rightarrow> nat \<Rightarrow> real" where
  "round_py x ndigits = of_int (round_half_even (x * 10 ^ ndigits)) / 10 ^ ndigits"

subsection \<open>Similarity scoring\<close>

text \<open>A feature vector is a Python dict from feature name to float.\<close>

type_synonym features = "string \<rightharpoonup> real"

text \<open>
  \<^verbatim>\<open>similarity_component(a, b, rel_cap=2.0)\<close>. The denominator is at least \<open>1e-9\<close>, so
  the first division cannot fail; the second one divides by \<open>rel_cap\<close>.
\<close>

definition similarity_component :: "real \<Rightarrow> real \<Rightarrow> real \<Rightarrow> error + real" where
  "similarity_component a b rel_cap =
     (if a = 0 \<and> b = 0 then Inr 1
      else
        let denom = max ((a + b) / 2) (1 / 10 ^ 9);
            rel_diff = \<bar>a - b\<bar> / denom;
            rel_diff = min rel_diff rel_cap
        in if rel_cap = 0 then Inl ZeroDivisionError
           else
             let sim = 1 - rel_diff / rel_cap
             in Inr (max 0 (min 1 sim)))"

text \<open>The rubric of \<^verbatim>\<open>compute_similarity_score\<close>, in the order the dict literal gives.\<close>

definition weights :: "(string \<times> real) list" where
  "weights =
     [(''total_distance_km'', 25 / 100),
      (''total_elev_gain_m'', 25 / 100),
      (''km_effort'', 15 / 100),
      (''elev_range_m'', 10 / 100),
      (''avg_grade'', 10 / 100),
      (''steep10_share'', 10 / 100),
      (''sinuosity'', 5 / 100)]"

text \<open>
  The loop over \<^verbatim>\<open>weights.items()\<close>; \<open>total_acc\<close> is the running \<^verbatim>\<open>total\<close>.
  A key missing from \<open>f1\<close> (looked up first) or from \<open>f2\<close> raises \<^verbatim>\<open>KeyError\<close>.
\<close>

fun score_loop :: "(string \<times> real) list \<Rightarrow> features \<Rightarrow> features \<Rightarrow> real \<Rightarrow> error + real" where
  "score_loop [] f1 f2 total_acc = Inr total_acc"
| "score_loop ((key, w) # rest) f1 f2 total_acc =
     (case f1 key of
        None \<Rightarrow> Inl (KeyError key)
      | Some a \<Rightarrow>
          (case f2 key of
             None \<Rightarrow> Inl (KeyError key)
           | Some b \<Rightarrow>
               (case similarity_component a b 2 of
                  Inl e \<Rightarrow> Inl e
                | Inr sim \<Rightarrow> score_loop rest f1 f2 (total_acc + w * sim))))"

definition compute_similarity_score :: "features \<Rightarrow> features \<Rightarrow> error + real" where
  "compute_similarity_score f1 f2 =
     (case score_loop weights f1 f2 0 of
        Inl e \<Rightarrow> Inl e
      | Inr total_acc \<Rightarrow> Inr (round_py (total_acc * 100) 2))"

text \<open>The seven keys the rubric reads.\<close>

definition scored_keys :: "string list" where
  "scored_keys = map fst weights"

subsection \<open>Great-circle distance\<close>

text \<open>
  \<^verbatim>\<open>haversine(lat1, lon1, lat2, lon2)\<close>, in kilometres. The two squares are squares of
  sines, at most 1, so \<^verbatim>\<open>**\<close> cannot overflow here.
\<close>

definition haversine :: "real \<Rightarrow> real \<Rightarrow> real \<Rightarrow> real \<Rightarrow> error + real" where
  "haversine lat1 lon1 lat2 lon2 =
     (let R = 6371;
          phi1 = radians lat1;
          phi2 = radians lat2;
          dphi = radians (lat2 - lat1);
          dlmb = radians (lon2 - lon1);
          a = (sin (dphi / 2)) ^ 2 + cos phi1 * cos phi2 * (sin (dlmb / 2)) ^ 2
      in case math_sqrt a of
           Inl e \<Rightarrow> Inl e
         | Inr sa \<Rightarrow>
             (case math_sqrt (1 - a) of
                Inl e \<Rightarrow> Inl e
              | Inr sb \<Rightarrow>
                  let c = 2 * atan2 sa sb
                  in Inr (R * c)))"

subsection \<open>Feature extraction\<close>

text \<open>
  One row of the route table, after \<^verbatim>\<open>float(...)\<close> has parsed each cell. Reading the
  file and parsing the cells are outside the model: \<^verbatim>\<open>extract_features\<close> takes the
  path (for its error message) and the rows the reader yields for it.
\<close>

record SampleRow =
  Distance_km :: real
  Elevation_m :: real
  Grade_percent :: "real option"
  Cumulative_Elevation_Gain_m :: real
  Latitude :: real
  Longitude :: real

text \<open>\<^verbatim>\<open>[g for g in grades if not math.isnan(g)]\<close>.\<close>

fun not_nan :: "real option list \<Rightarrow> real list" where
  "not_nan [] = []"
| "not_nan (None # gs) = not_nan gs"
| "not_nan (Some g # gs) = g # not_nan gs"

text \<open>
  \<^verbatim>\<open>sum((g - avg_grade) ** 2 for g in g_vals)\<close>: the squares are computed and added in
  order, \<open>acc\<close> being the running sum; the first square that overflows raises.
\<close>

fun sum_sq_dev :: "real list \<Rightarrow> real \<Rightarrow> real \<Rightarrow> error + real" where
  "sum_sq_dev [] avg_grade acc = Inr acc"
| "sum_sq_dev (g # gs) avg_grade acc =
     (case float_pow (g - avg_grade) 2 of
        Inl e \<Rightarrow> Inl e
      | Inr sq \<Rightarrow> sum_sq_dev gs avg_grade (acc + sq))"

text \<open>
  \<^verbatim>\<open>extract_features\<close>. After the emptiness check the six columns are non-empty, so
  \<^verbatim>\<open>lats[0]\<close> and \<^verbatim>\<open>lats[-1]\<close> are \<^term>\<open>hd\<close> and \<^term>\<open>last\<close>.
\<close>

definition extract_features :: "string \<Rightarrow> SampleRow list \<Rightarrow> error + features" where
  "extract_features route_csv_path rows =
     (let distances = map Distance_km rows;
          elevations = map Elevation_m rows;
          grades = map Grade_percent rows;
          cum_gains = map Cumulative_Elevation_Gain_m rows;
          lats = map Latitude rows;
          lons = map Longitude rows
      in if distances = [] then Inl (ValueError (''No data found in '' @ route_csv_path))
         else
           (case max_seq distances of Inl e \<Rightarrow> Inl e | Inr total_distance_km \<Rightarrow>
           (case max_seq cum_gains of Inl e \<Rightarrow> Inl e | Inr total_elev_gain_m \<Rightarrow>
           (case max_seq elevations of Inl e \<Rightarrow> Inl e | Inr max_elev \<Rightarrow>
           (case min_seq elevations of Inl e \<Rightarrow> Inl e | Inr min_elev \<Rightarrow>
           (let elevation_range_m = max_elev - min_elev;
                g_vals = not_nan grades;
                avg_grade = (if g_vals \<noteq> [] then sum_list g_vals / real (length g_vals) else 0)
            in
           (case (if length g_vals > 0
                  then (case sum_sq_dev g_vals avg_grade 0 of
                          Inl e \<Rightarrow> Inl e
                        | Inr s \<Rightarrow> Inr (s / real (length g_vals)))
                  else Inr 0) of Inl e \<Rightarrow> Inl e | Inr var \<Rightarrow>
           (case math_sqrt var of Inl e \<Rightarrow> Inl e | Inr std_grade \<Rightarrow>
           (let uphill_grades = filter (\<lambda>g. g > 0) g_vals;
                steep10_share =
                  (if uphill_grades \<noteq> []
                   then real (length (filter (\<lambda>g. g \<ge> 10) uphill_grades))
                          / real (length uphill_grades)
                   else 0);
                steep20_share =
                  (if uphill_grades \<noteq> []
                   then real (length (filter (\<lambda>g. g \<ge> 20) uphill_grades))
                          / real (length uphill_grades)
                   else 0)
            in
           (case haversine (hd lats) (hd lons) (last lats) (last lons) of
              Inl e \<Rightarrow> Inl e
            | Inr beeline_km \<Rightarrow>
           (let sinuosity = (if beeline_km > 0 then total_distance_km / beeline_km else 1);
                km_effort = total_distance_km + total_elev_gain_m / 100
            in Inr (map_of
                 [(''total_distance_km'', total_distance_km),
                  (''total_elev_gain_m'', total_elev_gain_m),
                  (''km_effort'', km_effort),
                  (''max_elev_m'', max_elev),
                  (''min_elev_m'', min_elev),
                  (''elev_range_m'', elevation_range_m),
                  (''avg_grade'', avg_grade),
                  (''std_grade'', std_grade),
                  (''steep10_share'', steep10_share),
                  (''steep20_share'', steep20_share),
                  (''sinuosity'', sinuosity)]))))))))))))"

text \<open>The two-point route of the idempotence scenario.\<close>

definition scenario_a :: "SampleRow list" where
  "scenario_a =
     [\<lparr>Distance_km = 0, Elevation_m = 100, Grade_percent = Some 0,
       Cumulative_Elevation_Gain_m = 0, Latitude = 45, Longitude = 9\<rparr>,
      \<lparr>Distance_km = 1, Elevation_m = 200, Grade_percent = Some 10,
       Cumulative_Elevation_Gain_m = 100, Latitude = 4501 / 100, Longitude = 9\<rparr>]"

text \<open>
  The two feature vectors of the extreme-mismatch scenario: 1 km with no climb against
  50 km with 3000 m of climb. The four features the scenario leaves open are given
  sample values.
\<close>

definition scenario_c_short :: features where
  "scenario_c_short = map_of
     [(''total_distance_km'', 1),
      (''total_elev_gain_m'', 0),
      (''km_effort'', 1),
      (''elev_range_m'', 0),
      (''avg_grade'', 0),
      (''steep10_share'', 0),
      (''sinuosity'', 1)]"

definition scenario_c_long :: features where
  "scenario_c_long = map_of
     [(''total_distance_km'', 50),
      (''total_elev_gain_m'', 3000),
      (''km_effort'', 80),
      (''elev_range_m'', 1500),
      (''avg_grade'', 6),
      (''steep10_share'', 3 / 10),
      (''sinuosity'', 2)]"



text \<open>
  A route of two points with grades \<open>1e160\<close> and \<open>-1e160\<close>: every cell is a finite
  float, distances and gains are not negative, and the square of a grade deviation is
  \<open>1e320\<close>, beyond the double range.
\<close>

definition overflow_route :: "SampleRow list" where
  "overflow_route =
     [\<lparr>Distance_km = 0, Elevation_m = 5, Grade_percent = Some (10 ^ 160),
       Cumulative_Elevation_Gain_m = 0, Latitude = 0, Longitude = 0\<rparr>,
      \<lparr>Distance_km = 1, Elevation_m = 5, Grade_percent = Some (- (10 ^ 160)),
       Cumulative_Elevation_Gain_m = 0, Latitude = 0, Longitude = 0\<rparr>]"

section \<open>Properties\<close>

subsection \<open>Rounding\<close>

lemma round_half_even_int: "round_half_even (of_int n) = n"
  by (simp add: round_half_even_def)

lemma round_half_even_bounds:
  "of_int lo \<le> x \<Longrightarrow> x \<le> of_int hi \<Longrightarrow> lo \<le> round_half_even x \<and> round_half_even x \<le> hi"
  unfolding round_half_even_def Let_def
  by (auto simp: le_floor_iff floor_le_iff) linarith+

lemma round_half_even_le: "x < of_int n + 1 / 2 \<Longrightarrow> round_half_even x \<le> n"
  unfolding round_half_even_def Let_def
  by (auto simp: floor_le_iff)

lemma round_py_int: "round_py (of_int n) 2 = of_int n"
proof -
  have "(of_int n :: real) * 10\<^sup>2 = of_int (n * 100)" by simp
  then show ?thesis unfolding round_py_def by (simp only: round_half_even_int) simp
qed

lemma round_py_range:
  assumes "0 \<le> x" "x \<le> 100"
  shows "0 \<le> round_py x 2 \<and> round_py x 2 \<le> 100"
proof -
  have "of_int 0 \<le> x * 10\<^sup>2" "x * 10\<^sup>2 \<le> of_int 10000" using assms by simp_all
  from round_half_even_bounds[OF this]
  have "0 \<le> round_half_even (x * 10\<^sup>2)" "round_half_even (x * 10\<^sup>2) \<le> 10000" by simp_all
  then have "0 \<le> real_of_int (round_half_even (x * 10\<^sup>2))"
            "real_of_int (round_half_even (x * 10\<^sup>2)) \<le> 10000" by linarith+
  then show ?thesis by (simp add: round_py_def)
qed

subsection \<open>The similarity component\<close>

lemma sim_default_range:
  "\<exists>s. similarity_component a b 2 = Inr s \<and> 0 \<le> s \<and> s \<le> 1"
  by (simp add: similarity_component_def Let_def)

lemma sim_self: "similarity_component x x 2 = Inr 1"
  by (simp add: similarity_component_def Let_def)

lemma sim_sym: "similarity_component a b c = similarity_component b a c"
  by (simp add: similarity_component_def Let_def add.commute abs_minus_commute conj_commute)

subsection \<open>The scoring loop\<close>

lemma weights_sum: "sum_list (map snd weights) = 1"
  by (simp add: weights_def)

lemma weights_nonneg: "list_all (\<lambda>(k, w). 0 \<le> w) weights"
  by (simp add: weights_def)

lemma score_loop_sym: "score_loop ws f1 f2 t = score_loop ws f2 f1 t"
  by (induction ws f1 f2 t rule: score_loop.induct)
     (auto split: option.splits sum.splits simp: sim_sym)

lemma score_loop_self:
  "set (map fst ws) \<subseteq> dom f \<Longrightarrow> score_loop ws f f t = Inr (t + sum_list (map snd ws))"
proof (induction ws arbitrary: t)
  case Nil
  then show ?case by simp
next
  case (Cons kw ws)
  obtain k w where kw: "kw = (k, w)" by (cases kw)
  from Cons.prems obtain a where a: "f k = Some a" by (auto simp: kw)
  from Cons.prems have "set (map fst ws) \<subseteq> dom f" by simp
  from Cons.IH[OF this, of "t + w"] show ?case
    by (simp add: kw a sim_self add.assoc)
qed

lemma score_loop_bounds:
  "set (map fst ws) \<subseteq> dom f1 \<Longrightarrow> set (map fst ws) \<subseteq> dom f2 \<Longrightarrow>
   list_all (\<lambda>(k, w). 0 \<le> w) ws \<Longrightarrow>
   \<exists>s. score_loop ws f1 f2 t = Inr s \<and> t \<le> s \<and> s \<le> t + sum_list (map snd ws)"
proof (induction ws arbitrary: t)
  case Nil
  then show ?case by simp
next
  case (Cons kw ws)
  obtain k w where kw: "kw = (k, w)" by (cases kw)
  from Cons.prems obtain a b where ab: "f1 k = Some a" "f2 k = Some b" by (auto simp: kw)
  obtain c where c: "similarity_component a b 2 = Inr c" "0 \<le> c" "c \<le> 1"
    using sim_default_range[of a b] by blast
  from Cons.prems have w: "0 \<le> w" by (simp add: kw)
  have wc: "0 \<le> w * c" "w * c \<le> w"
    using w c by (simp_all add: mult_left_le)
  from Cons.prems have p: "set (map fst ws) \<subseteq> dom f1" "set (map fst ws) \<subseteq> dom f2"
    "list_all (\<lambda>(k, w). 0 \<le> w) ws" by simp_all
  from Cons.IH[OF p, of "t + w * c"] obtain s where
    s: "score_loop ws f1 f2 (t + w * c) = Inr s" "t + w * c \<le> s"
       "s \<le> t + w * c + sum_list (map snd ws)" by blast
  show ?case using s wc by (simp add: kw ab c(1))
qed

lemma score_self: "set scored_keys \<subseteq> dom f \<Longrightarrow> compute_similarity_score f f = Inr 100"
  using score_loop_self[of weights f 0] round_py_int[of 100]
  by (simp add: compute_similarity_score_def scored_keys_def weights_sum)

text \<open>The score written out, once the fourteen lookups and the seven components are known.\<close>

lemma compute_explicit:
  assumes "f1 ''total_distance_km'' = Some a1" "f2 ''total_distance_km'' = Some b1"
    "f1 ''total_elev_gain_m'' = Some a2" "f2 ''total_elev_gain_m'' = Some b2"
    "f1 ''km_effort'' = Some a3" "f2 ''km_effort'' = Some b3"
    "f1 ''elev_range_m'' = Some a4" "f2 ''elev_range_m'' = Some b4"
    "f1 ''avg_grade'' = Some a5" "f2 ''avg_grade'' = Some b5"
    "f1 ''steep10_share'' = Some a6" "f2 ''steep10_share'' = Some b6"
    "f1 ''sinuosity'' = Some a7" "f2 ''sinuosity'' = Some b7"
    "similarity_component a1 b1 2 = Inr c1" "similarity_component a2 b2 2 = Inr c2"
    "similarity_component a3 b3 2 = Inr c3" "similarity_component a4 b4 2 = Inr c4"
    "similarity_component a5 b5 2 = Inr c5" "similarity_component a6 b6 2 = Inr c6"
    "similarity_component a7 b7 2 = Inr c7"
  shows "compute_similarity_score f1 f2 =
    Inr (round_py ((25 / 100 * c1 + 25 / 100 * c2 + 15 / 100 * c3 + 10 / 100 * c4
                    + 10 / 100 * c5 + 10 / 100 * c6 + 5 / 100 * c7) * 100) 2)"
  by (simp add: compute_similarity_score_def weights_def assms)

text \<open>
  C1. A feature vector that holds the seven scored keys scores exactly 100 against itself.
\<close>

theorem compute_similarity_score_self:
  "set scored_keys \<subseteq> dom f \<Longrightarrow> compute_similarity_score f f = Inr 100"
  by (rule score_self)

theorem compute_similarity_score_self_witness:
  "set scored_keys \<subseteq> dom scenario_c_long \<and>
   compute_similarity_score scenario_c_long scenario_c_long = Inr 100"
  using compute_similarity_score_self[of scenario_c_long]
  by (simp add: scored_keys_def weights_def scenario_c_long_def)

text \<open>
  C2. For two feature vectors that hold the seven scored keys the score is a value in
  \<open>[0, 100]\<close>. It rests on every component lying in \<open>[0, 1]\<close> and on the weights being
  non-negative with sum 1, which are part of the statement.
\<close>

theorem compute_similarity_score_range:
  assumes "set scored_keys \<subseteq> dom f1" "set scored_keys \<subseteq> dom f2"
  shows "(\<exists>s. compute_similarity_score f1 f2 = Inr s \<and> 0 \<le> s \<and> s \<le> 100) \<and>
         (\<exists>c. similarity_component a b 2 = Inr c \<and> 0 \<le> c \<and> c \<le> 1) \<and>
         list_all (\<lambda>(k, w). 0 \<le> w) weights \<and> sum_list (map snd weights) = 1"
proof -
  from score_loop_bounds[of weights f1 f2 0] assms weights_nonneg weights_sum
  obtain t where t: "score_loop weights f1 f2 0 = Inr t" "0 \<le> t" "t \<le> 1"
    by (auto simp: scored_keys_def)
  then have "0 \<le> t * 100" "t * 100 \<le> 100" by simp_all
  from round_py_range[OF this]
  have "\<exists>s. compute_similarity_score f1 f2 = Inr s \<and> 0 \<le> s \<and> s \<le> 100"
    by (simp add: compute_similarity_score_def t(1))
  then show ?thesis
    using sim_default_range[of a b] weights_nonneg weights_sum by simp
qed

theorem compute_similarity_score_range_witness:
  "set scored_keys \<subseteq> dom scenario_c_short \<and> set scored_keys \<subseteq> dom scenario_c_long \<and>
   (\<exists>s. compute_similarity_score scenario_c_short scenario_c_long = Inr s \<and> 0 \<le> s \<and> s \<le> 100)"
  using compute_similarity_score_range[of scenario_c_short scenario_c_long]
  by (simp add: scored_keys_def weights_def scenario_c_short_def scenario_c_long_def)

text \<open>
  C9. The score is symmetric: for two feature vectors that hold the seven scored keys,
  both orders of the arguments return the same value.
\<close>

theorem compute_similarity_score_symmetric:
  assumes "set scored_keys \<subseteq> dom f1" "set scored_keys \<subseteq> dom f2"
  shows "\<exists>s. compute_similarity_score f1 f2 = Inr s \<and> compute_similarity_score f2 f1 = Inr s"
proof -
  from score_loop_bounds[of weights f1 f2 0] assms weights_nonneg
  obtain t where t: "score_loop weights f1 f2 0 = Inr t"
    by (auto simp: scored_keys_def)
  moreover have "score_loop weights f2 f1 0 = Inr t"
    using t score_loop_sym[of weights f1 f2 0] by simp
  ultimately show ?thesis by (simp add: compute_similarity_score_def)
qed

theorem compute_similarity_score_symmetric_witness:
  "set scored_keys \<subseteq> dom scenario_c_long \<and> set scored_keys \<subseteq> dom scenario_c_short \<and>
   (\<exists>s. compute_similarity_score scenario_c_long scenario_c_short = Inr s \<and>
        compute_similarity_score scenario_c_short scenario_c_long = Inr s)"
  using compute_similarity_score_symmetric[of scenario_c_long scenario_c_short]
  by (simp add: scored_keys_def weights_def scenario_c_short_def scenario_c_long_def)

text \<open>
  C10. When \<open>a + b \<le> 0\<close> and the two values are not both 0, the denominator is the floor
  \<open>1e-9\<close>, the component is \<open>max 0 (1 - |a - b| / (2 * 1e-9))\<close>, and it is 0 as soon as
  \<open>|a - b| \<ge> 2e-9\<close>; the grades \<open>-5\<close> and \<open>5\<close> are the witness.
\<close>

theorem similarity_component_floor_denominator:
  assumes "a + b \<le> 0" "\<not> (a = 0 \<and> b = 0)"
  shows "max ((a + b) / 2) (1 / 10 ^ 9) = 1 / 10 ^ 9 \<and>
         similarity_component a b 2 = Inr (max 0 (1 - \<bar>a - b\<bar> / (2 * (1 / 10 ^ 9)))) \<and>
         (2 / 10 ^ 9 \<le> \<bar>a - b\<bar> \<longrightarrow> similarity_component a b 2 = Inr 0)"
proof -
  have d: "max ((a + b) / 2) (1 / 10 ^ 9) = 1 / 10 ^ 9"
    using assms(1) by (simp add: max_def)
  have s: "similarity_component a b 2 = Inr (max 0 (1 - \<bar>a - b\<bar> / (2 * (1 / 10 ^ 9))))"
    using assms(2) unfolding similarity_component_def Let_def d
    by (auto simp: max_def min_def field_simps)
  show ?thesis using d s by (auto simp: max_def field_simps)
qed

theorem similarity_component_floor_denominator_witness:
  "(-5::real) + 5 \<le> 0 \<and> \<not> ((-5::real) = 0 \<and> (5::real) = 0) \<and>
   2 / 10 ^ 9 \<le> \<bar>(-5::real) - 5\<bar> \<and>
   similarity_component (-5) 5 2 = Inr 0"
  using similarity_component_floor_denominator[of "-5" 5] by simp

text \<open>
  C4, as stated, fails: the distance component of 1 km against 50 km is not 0. The
  relative difference is taken against the mean, \<open>49 / 25.5\<close>, which stays below the
  cap 2, and the component is \<open>2 / 51\<close>.
\<close>

theorem scenario_c_distance_component_counterexample:
  "scenario_c_short ''total_distance_km'' = Some 1 \<and>
   scenario_c_long ''total_distance_km'' = Some 50 \<and>
   \<bar>1 - 50\<bar> / ((1 + 50) / 2) < (2::real) \<and>
   similarity_component 1 50 2 = Inr (2 / 51) \<and>
   similarity_component 1 50 2 \<noteq> Inr 0"
  by (simp add: similarity_component_def Let_def scenario_c_short_def scenario_c_long_def)

text \<open>
  C4, amended. For route A with distance 1, gain 0, km-effort 1 and route B with distance
  50, gain 3000, km-effort 80: the gain component is 0, the distance component is
  \<open>2 / 51\<close>, the km-effort component is \<open>2 / 81\<close>, and the score is at most 36.35 (so
  below 40) whatever the four other scored features are.
\<close>

theorem scenario_c_score_bound:
  assumes "f1 ''total_distance_km'' = Some 1" "f1 ''total_elev_gain_m'' = Some 0"
    "f1 ''km_effort'' = Some 1"
    "f2 ''total_distance_km'' = Some 50" "f2 ''total_elev_gain_m'' = Some 3000"
    "f2 ''km_effort'' = Some 80"
    "set scored_keys \<subseteq> dom f1" "set scored_keys \<subseteq> dom f2"
  shows "similarity_component 1 50 2 = Inr (2 / 51) \<and>
         similarity_component 0 3000 2 = Inr 0 \<and>
         similarity_component 1 80 2 = Inr (2 / 81) \<and>
         (\<exists>s. compute_similarity_score f1 f2 = Inr s \<and> 0 \<le> s \<and> s \<le> 3635 / 100)"
proof -
  have c1: "similarity_component 1 50 2 = Inr (2 / 51)"
    and c2: "similarity_component 0 3000 2 = Inr 0"
    and c3: "similarity_component 1 80 2 = Inr (2 / 81)"
    by (simp_all add: similarity_component_def Let_def)
  from assms(7) obtain a4 a5 a6 a7 where
    a: "f1 ''elev_range_m'' = Some a4" "f1 ''avg_grade'' = Some a5"
       "f1 ''steep10_share'' = Some a6" "f1 ''sinuosity'' = Some a7"
    by (auto simp: scored_keys_def weights_def)
  from assms(8) obtain b4 b5 b6 b7 where
    b: "f2 ''elev_range_m'' = Some b4" "f2 ''avg_grade'' = Some b5"
       "f2 ''steep10_share'' = Some b6" "f2 ''sinuosity'' = Some b7"
    by (auto simp: scored_keys_def weights_def)
  obtain c4 where c4: "similarity_component a4 b4 2 = Inr c4" "0 \<le> c4" "c4 \<le> 1"
    using sim_default_range[of a4 b4] by blast
  obtain c5 where c5: "similarity_component a5 b5 2 = Inr c5" "0 \<le> c5" "c5 \<le> 1"
    using sim_default_range[of a5 b5] by blast
  obtain c6 where c6: "similarity_component a6 b6 2 = Inr c6" "0 \<le> c6" "c6 \<le> 1"
    using sim_default_range[of a6 b6] by blast
  obtain c7 where c7: "similarity_component a7 b7 2 = Inr c7" "0 \<le> c7" "c7 \<le> 1"
    using sim_default_range[of a7 b7] by blast
  define t where
    "t = (25 / 100 * (2 / 51) + 25 / 100 * 0 + 15 / 100 * (2 / 81) + 10 / 100 * c4
          + 10 / 100 * c5 + 10 / 100 * c6 + 5 / 100 * c7) * 100"
  have e: "compute_similarity_score f1 f2 = Inr (round_py t 2)"
    unfolding t_def
    by (rule compute_explicit[OF assms(1) assms(4) assms(2) assms(5) assms(3) assms(6)
          a(1) b(1) a(2) b(2) a(3) b(3) a(4) b(4) c1 c2 c3 c4(1) c5(1) c6(1) c7(1)])
  have t0: "0 \<le> t" unfolding t_def using c4 c5 c6 c7 by simp
  have thi: "t * 10\<^sup>2 < of_int 3635 + 1 / 2" unfolding t_def using c4 c5 c6 c7 by simp
  have t100: "t \<le> 100" using thi by simp
  have "round_half_even (t * 10\<^sup>2) \<le> 3635" by (rule round_half_even_le[OF thi])
  then have "real_of_int (round_half_even (t * 10\<^sup>2)) \<le> 3635" by linarith
  then have hi: "round_py t 2 \<le> 3635 / 100" by (simp add: round_py_def)
  have lo: "0 \<le> round_py t 2" using round_py_range[OF t0 t100] by simp
  show ?thesis using c1 c2 c3 e hi lo by simp
qed

theorem scenario_c_score_bound_witness:
  "scenario_c_short ''total_distance_km'' = Some 1 \<and>
   scenario_c_short ''total_elev_gain_m'' = Some 0 \<and>
   scenario_c_short ''km_effort'' = Some 1 \<and>
   scenario_c_long ''total_distance_km'' = Some 50 \<and>
   scenario_c_long ''total_elev_gain_m'' = Some 3000 \<and>
   scenario_c_long ''km_effort'' = Some 80 \<and>
   set scored_keys \<subseteq> dom scenario_c_short \<and> set scored_keys \<subseteq> dom scenario_c_long \<and>
   (\<exists>s. compute_similarity_score scenario_c_short scenario_c_long = Inr s \<and>
        0 \<le> s \<and> s \<le> 3635 / 100)"
  using scenario_c_score_bound[of scenario_c_short scenario_c_long]
  by (simp add: scored_keys_def weights_def scenario_c_short_def scenario_c_long_def)

subsection \<open>Great-circle distance\<close>

lemma cos_half_sin: "cos x = 1 - 2 * (sin (x / 2))\<^sup>2" for x :: real
  using cos_double_sin[of "x / 2"] by simp

lemma cos_half_cos: "cos x = 2 * (cos (x / 2))\<^sup>2 - 1" for x :: real
  using cos_double_cos[of "x / 2"] by simp

lemma hav_a_identity:
  "(sin ((q - p) / 2))\<^sup>2 + cos p * cos q = (cos ((p + q) / 2))\<^sup>2" for p q :: real
proof -
  have s: "cos (q - p) = 1 - 2 * (sin ((q - p) / 2))\<^sup>2"
    by (rule cos_half_sin)
  have c: "cos (p + q) = 2 * (cos ((p + q) / 2))\<^sup>2 - 1"
    by (rule cos_half_cos)
  have m: "cos p * cos q = (cos (p - q) + cos (p + q)) / 2"
    by (simp add: cos_times_cos)
  have e: "cos (p - q) = cos (q - p)"
    using cos_minus[of "q - p"] by simp
  show ?thesis using s c m e by (simp add: field_simps)
qed

text \<open>
  The haversine term \<open>a\<close> is a mean of two squares, weighted by \<open>(sin l)\<^sup>2\<close>: it lies
  in \<open>[0, 1]\<close>, so in exact arithmetic neither square root of \<^const>\<open>haversine\<close>
  fails. (The floating-point code can leave this interval by rounding; see the
  introduction.)
\<close>

lemma hav_a_bounds:
  fixes p q l :: real
  shows "0 \<le> (sin ((q - p) / 2))\<^sup>2 + cos p * cos q * (sin l)\<^sup>2 \<and>
         (sin ((q - p) / 2))\<^sup>2 + cos p * cos q * (sin l)\<^sup>2 \<le> 1"
proof -
  let ?s = "(sin l)\<^sup>2" and ?A = "(sin ((q - p) / 2))\<^sup>2" and ?B = "(cos ((p + q) / 2))\<^sup>2"
  have s01: "0 \<le> ?s" "?s \<le> 1" by (simp_all add: abs_square_le_1)
  have A01: "0 \<le> ?A" "?A \<le> 1" by (simp_all add: abs_square_le_1)
  have B01: "0 \<le> ?B" "?B \<le> 1" by (simp_all add: abs_square_le_1)
  have cc: "cos p * cos q = ?B - ?A" using hav_a_identity[of q p] by simp
  have eq: "?A + cos p * cos q * ?s = (1 - ?s) * ?A + ?s * ?B"
    unfolding cc by (simp add: algebra_simps)
  have lo: "0 \<le> (1 - ?s) * ?A + ?s * ?B"
    using s01 A01 B01 by (intro add_nonneg_nonneg mult_nonneg_nonneg) simp_all
  have "(1 - ?s) * ?A \<le> (1 - ?s) * 1" using s01 A01 by (intro mult_left_mono) simp_all
  moreover have "?s * ?B \<le> ?s * 1" using s01 B01 by (intro mult_left_mono) simp_all
  ultimately have hi: "(1 - ?s) * ?A + ?s * ?B \<le> 1" by simp
  show ?thesis using eq lo hi by simp
qed

lemma haversine_total:
  "\<exists>d. haversine lat1 lon1 lat2 lon2 = Inr d \<and> 0 \<le> d"
proof -
  define a where "a = (sin (radians (lat2 - lat1) / 2))\<^sup>2
      + cos (radians lat1) * cos (radians lat2) * (sin (radians (lon2 - lon1) / 2))\<^sup>2"
  have r: "radians (lat2 - lat1) = radians lat2 - radians lat1"
    by (simp add: radians_def field_simps)
  have ab: "0 \<le> a \<and> a \<le> 1"
    unfolding a_def r using hav_a_bounds[of "radians lat2" "radians lat1"] by simp
  have at: "0 \<le> atan2 (sqrt a) (sqrt (1 - a))"
    using ab by (auto simp: atan2_def not_less)
  show ?thesis
    using ab at by (simp add: haversine_def Let_def math_sqrt_def a_def[symmetric])
qed

lemma haversine_same: "haversine lat lon lat lon = Inr 0"
  by (simp add: haversine_def Let_def math_sqrt_def radians_def atan2_def)

lemma sin_half_radians_sq:
  "(sin (radians (x - y) / 2))\<^sup>2 = (sin (radians (y - x) / 2))\<^sup>2"
proof -
  have "radians (x - y) / 2 = - (radians (y - x) / 2)"
    by (simp add: radians_def algebra_simps diff_divide_distrib)
  then show ?thesis by (simp only: sin_minus power2_minus)
qed

lemma haversine_sym: "haversine lat1 lon1 lat2 lon2 = haversine lat2 lon2 lat1 lon1"
  unfolding haversine_def Let_def
  by (simp only: sin_half_radians_sq[of lat2 lat1] sin_half_radians_sq[of lon2 lon1]
        mult.commute[of "cos (radians lat1)" "cos (radians lat2)"])

text \<open>
  C8. The distance from a point to itself is 0, and the distance is symmetric: the two
  orders of the arguments give the same result.
\<close>

theorem haversine_zero_and_symmetric:
  "haversine lat lon lat lon = Inr 0 \<and>
   haversine lat1 lon1 lat2 lon2 = haversine lat2 lon2 lat1 lon1"
proof
  show "haversine lat lon lat lon = Inr 0"
    by (rule haversine_same)
  show "haversine lat1 lon1 lat2 lon2 = haversine lat2 lon2 lat1 lon1"
    by (rule haversine_sym)
qed

subsection \<open>Feature extraction\<close>

lemma fold_max_mem: "foldl (\<lambda>m y. if m < y then y else m) x xs \<in> set (x # xs)"
  by (induction xs arbitrary: x) (auto split: if_splits)

lemma fold_max_ge: "(x::real) \<le> foldl (\<lambda>m y. if m < y then y else m) x xs"
proof (induction xs arbitrary: x)
  case Nil
  then show ?case by simp
next
  case (Cons y ys)
  show ?case using Cons.IH[of y] Cons.IH[of x] by (auto split: if_splits)
qed

lemma fold_min_le: "foldl (\<lambda>m y. if y < m then y else m) x xs \<le> (x::real)"
proof (induction xs arbitrary: x)
  case Nil
  then show ?case by simp
next
  case (Cons y ys)
  show ?case using Cons.IH[of y] Cons.IH[of x] by (auto split: if_splits)
qed

lemma max_seq_Inr:
  assumes "xs \<noteq> []"
  obtains m where "max_seq xs = Inr m" "m \<in> set xs" "hd xs \<le> m"
proof -
  from assms obtain y ys where xs: "xs = y # ys" by (cases xs) auto
  show thesis
    using that[of "foldl (\<lambda>m y. if m < y then y else m) y ys"]
      fold_max_mem[of y ys] fold_max_ge[of y ys]
    by (simp add: xs)
qed

lemma min_seq_Inr:
  assumes "xs \<noteq> []"
  obtains m where "min_seq xs = Inr m" "m \<le> hd xs"
proof -
  from assms obtain y ys where xs: "xs = y # ys" by (cases xs) auto
  show thesis
    using that[of "foldl (\<lambda>m y. if y < m then y else m) y ys"] fold_min_le[of y ys]
    by (simp add: xs)
qed

lemma share_range:
  "0 \<le> real (length (filter P xs)) / real (length xs) \<and>
   real (length (filter P xs)) / real (length xs) \<le> 1"
proof (cases "xs = []")
  case True
  then show ?thesis by simp
next
  case False
  then have "0 < real (length xs)" by simp
  moreover have "real (length (filter P xs)) \<le> real (length xs)" by simp
  ultimately show ?thesis by (simp add: divide_le_eq)
qed

lemma variance_nonneg:
  "0 \<le> sum_list (map (\<lambda>g. (g - m)\<^sup>2) gs) / real (length gs)" for m :: real
  by (intro divide_nonneg_nonneg sum_list_nonneg) auto

lemma sum_sq_dev_cases:
  "sum_sq_dev gs m acc = Inl OverflowError \<or>
   sum_sq_dev gs m acc = Inr (acc + sum_list (map (\<lambda>g. (g - m)\<^sup>2) gs))"
proof (induction gs arbitrary: acc)
  case Nil
  then show ?case by simp
next
  case (Cons g gs)
  show ?case
  proof (cases "float_overflow_bound \<le> \<bar>(g - m)\<^sup>2\<bar>")
    case True
    then show ?thesis by (simp add: float_pow_def)
  next
    case False
    then show ?thesis
      using Cons.IH[of "acc + (g - m)\<^sup>2"] by (simp add: float_pow_def add.assoc)
  qed
qed

text \<open>
  The outcomes of extraction on a non-empty route, in exact arithmetic: it raises
  \<^verbatim>\<open>OverflowError\<close> at a squared grade deviation, or it returns the feature vector
  written out here.
\<close>

lemma extract_features_cases:
  assumes "rows \<noteq> []"
  obtains (overflow) "extract_features p rows = Inl OverflowError"
  | (vector) td tg mx mn ag sd s10 s20 d where
    "max_seq (map Distance_km rows) = Inr td"
    "max_seq (map Cumulative_Elevation_Gain_m rows) = Inr tg"
    "max_seq (map Elevation_m rows) = Inr mx"
    "min_seq (map Elevation_m rows) = Inr mn"
    "haversine (Latitude (hd rows)) (Longitude (hd rows))
               (Latitude (last rows)) (Longitude (last rows)) = Inr d"
    "0 \<le> d" "0 \<le> s10" "s10 \<le> 1" "0 \<le> s20" "s20 \<le> 1"
    "extract_features p rows = Inr (map_of
       [(''total_distance_km'', td),
        (''total_elev_gain_m'', tg),
        (''km_effort'', td + tg / 100),
        (''max_elev_m'', mx),
        (''min_elev_m'', mn),
        (''elev_range_m'', mx - mn),
        (''avg_grade'', ag),
        (''std_grade'', sd),
        (''steep10_share'', s10),
        (''steep20_share'', s20),
        (''sinuosity'', if d > 0 then td / d else 1)])"
proof -
  obtain td where td: "max_seq (map Distance_km rows) = Inr td"
    using max_seq_Inr[of "map Distance_km rows"] assms by auto
  obtain tg where tg: "max_seq (map Cumulative_Elevation_Gain_m rows) = Inr tg"
    using max_seq_Inr[of "map Cumulative_Elevation_Gain_m rows"] assms by auto
  obtain mx where mx: "max_seq (map Elevation_m rows) = Inr mx"
    using max_seq_Inr[of "map Elevation_m rows"] assms by auto
  obtain mn where mn: "min_seq (map Elevation_m rows) = Inr mn"
    using min_seq_Inr[of "map Elevation_m rows"] assms by auto
  obtain d where d: "haversine (Latitude (hd rows)) (Longitude (hd rows))
               (Latitude (last rows)) (Longitude (last rows)) = Inr d" "0 \<le> d"
    using haversine_total by blast
  define gv where "gv = not_nan (map Grade_percent rows)"
  define up where "up = filter (\<lambda>g. g > 0) gv"
  define ag where "ag = (if gv \<noteq> [] then sum_list gv / real (length gv) else 0)"
  define var where "var = (if length gv > 0
       then sum_list (map (\<lambda>g. (g - ag)\<^sup>2) gv) / real (length gv) else 0)"
  define s10 where "s10 = (if up \<noteq> []
       then real (length (filter (\<lambda>g. g \<ge> 10) up)) / real (length up) else 0)"
  define s20 where "s20 = (if up \<noteq> []
       then real (length (filter (\<lambda>g. g \<ge> 20) up)) / real (length up) else 0)"
  have var0: "0 \<le> var" unfolding var_def using variance_nonneg[of ag gv] by simp
  then have sq: "math_sqrt var = Inr (sqrt var)" by (simp add: math_sqrt_def)
  have r10: "0 \<le> s10" "s10 \<le> 1"
    unfolding s10_def using share_range[of "\<lambda>g. g \<ge> 10" up] by auto
  have r20: "0 \<le> s20" "s20 \<le> 1"
    unfolding s20_def using share_range[of "\<lambda>g. g \<ge> 20" up] by auto
  have "(0 < length gv \<and> sum_sq_dev gv ag 0 = Inl OverflowError) \<or>
        (if length gv > 0
         then (case sum_sq_dev gv ag 0 of
                 Inl e \<Rightarrow> Inl e
               | Inr s \<Rightarrow> Inr (s / real (length gv)))
         else Inr 0) = Inr var"
  proof (cases "gv = []")
    case True
    then show ?thesis by (simp add: var_def)
  next
    case False
    then show ?thesis using sum_sq_dev_cases[of gv ag 0] by (auto simp: var_def)
  qed
  then consider (ov) "0 < length gv" "sum_sq_dev gv ag 0 = Inl OverflowError"
    | (ok) "(if length gv > 0
             then (case sum_sq_dev gv ag 0 of
                     Inl e \<Rightarrow> Inl e
                   | Inr s \<Rightarrow> Inr (s / real (length gv)))
             else Inr 0) = Inr var"
    by blast
  then show thesis
  proof cases
    case ov
    have "extract_features p rows = Inl OverflowError"
      unfolding extract_features_def Let_def
      using assms td tg mx mn ov
      unfolding ag_def gv_def
      by simp
    then show thesis by (rule overflow)
  next
    case ok
    have e: "extract_features p rows = Inr (map_of
       [(''total_distance_km'', td),
        (''total_elev_gain_m'', tg),
        (''km_effort'', td + tg / 100),
        (''max_elev_m'', mx),
        (''min_elev_m'', mn),
        (''elev_range_m'', mx - mn),
        (''avg_grade'', ag),
        (''std_grade'', sqrt var),
        (''steep10_share'', s10),
        (''steep20_share'', s20),
        (''sinuosity'', if d > 0 then td / d else 1)])"
      unfolding extract_features_def Let_def
      using assms td tg mx mn d(1) sq ok
      unfolding ag_def s10_def s20_def up_def gv_def
      by (simp add: hd_map last_map)
    show thesis using vector[OF td tg mx mn d r10 r20 e] .
  qed
qed

text \<open>The three sample routes, evaluated.\<close>

lemma small_square: "\<bar>x\<bar> \<le> 10 ^ 100 \<Longrightarrow> float_pow x 2 = Inr (x\<^sup>2)" for x :: real
proof -
  assume "\<bar>x\<bar> \<le> 10 ^ 100"
  then have "\<bar>x\<bar>\<^sup>2 \<le> (10 ^ 100)\<^sup>2"
    by (intro power_mono) simp_all
  then have "x\<^sup>2 \<le> (10 ^ 100)\<^sup>2" by simp
  moreover have "((10::real) ^ 100)\<^sup>2 < float_overflow_bound"
    by (simp add: float_overflow_bound_def)
  ultimately show ?thesis by (simp add: float_pow_def)
qed

lemma scenario_a_extract:
  "\<exists>d. extract_features p scenario_a = Inr (map_of
       [(''total_distance_km'', 1),
        (''total_elev_gain_m'', 100),
        (''km_effort'', 2),
        (''max_elev_m'', 200),
        (''min_elev_m'', 100),
        (''elev_range_m'', 100),
        (''avg_grade'', 5),
        (''std_grade'', sqrt 25),
        (''steep10_share'', 1),
        (''steep20_share'', 0),
        (''sinuosity'', if d > 0 then 1 / d else 1)])"
proof -
  obtain d where d: "haversine 45 9 (4501 / 100) 9 = Inr d"
    using haversine_total by blast
  have "extract_features p scenario_a = Inr (map_of
       [(''total_distance_km'', 1),
        (''total_elev_gain_m'', 100),
        (''km_effort'', 2),
        (''max_elev_m'', 200),
        (''min_elev_m'', 100),
        (''elev_range_m'', 100),
        (''avg_grade'', 5),
        (''std_grade'', sqrt 25),
        (''steep10_share'', 1),
        (''steep20_share'', 0),
        (''sinuosity'', if d > 0 then 1 / d else 1)])"
    by (simp add: extract_features_def scenario_a_def Let_def d math_sqrt_def small_square)
  then show ?thesis by blast
qed



lemma overflow_route_extract: "extract_features p overflow_route = Inl OverflowError"
  by (simp add: extract_features_def overflow_route_def Let_def float_pow_def
        float_overflow_bound_def)

text \<open>
  C3. On a route table with zero rows the extractor raises at its emptiness check (the
  \<^verbatim>\<open>ValueError\<close> "No data found in ..." of the source, the data error of the
  specification) and returns no feature vector.
\<close>

theorem extract_features_empty:
  "extract_features p [] = Inl (ValueError (''No data found in '' @ p))"
  by (simp add: extract_features_def)

text \<open>
  C5. The two-point route of the idempotence scenario has total distance 1, total gain
  100, average grade 5, steep-10 share 1, steep-20 share 0 and km-effort 2, and its
  feature vector scores exactly 100 against itself.
\<close>

theorem scenario_a_features:
  "\<exists>f. extract_features p scenario_a = Inr f \<and>
       f ''total_distance_km'' = Some 1 \<and>
       f ''total_elev_gain_m'' = Some 100 \<and>
       f ''avg_grade'' = Some 5 \<and>
       f ''steep10_share'' = Some 1 \<and>
       f ''steep20_share'' = Some 0 \<and>
       f ''km_effort'' = Some 2 \<and>
       compute_similarity_score f f = Inr 100"
proof -
  obtain d where d: "extract_features p scenario_a = Inr (map_of
       [(''total_distance_km'', 1),
        (''total_elev_gain_m'', 100),
        (''km_effort'', 2),
        (''max_elev_m'', 200),
        (''min_elev_m'', 100),
        (''elev_range_m'', 100),
        (''avg_grade'', 5),
        (''std_grade'', sqrt 25),
        (''steep10_share'', 1),
        (''steep20_share'', 0),
        (''sinuosity'', if d > 0 then 1 / d else 1)])"
    using scenario_a_extract[of p] by blast
  define fv where "fv = map_of
       [(''total_distance_km'', 1),
        (''total_elev_gain_m'', 100),
        (''km_effort'', 2),
        (''max_elev_m'', 200),
        (''min_elev_m'', 100),
        (''elev_range_m'', 100),
        (''avg_grade'', 5),
        (''std_grade'', sqrt 25),
        (''steep10_share'', 1),
        (''steep20_share'', 0),
        (''sinuosity'', if d > 0 then 1 / d else 1)]"
  have e: "extract_features p scenario_a = Inr fv"
    using d by (simp only: fv_def)
  have "set scored_keys \<subseteq> dom fv"
    by (simp add: scored_keys_def weights_def fv_def)
  then have s: "compute_similarity_score fv fv = Inr 100"
    by (rule score_self)
  have v: "fv ''total_distance_km'' = Some 1" "fv ''total_elev_gain_m'' = Some 100"
    "fv ''avg_grade'' = Some 5" "fv ''steep10_share'' = Some 1"
    "fv ''steep20_share'' = Some 0" "fv ''km_effort'' = Some 2"
    by (simp_all add: fv_def)
  show ?thesis using e s v by blast
qed



text \<open>
  C7, as stated, fails: a non-empty route with non-negative distances and gains need not
  yield a feature vector. On the route with grades \<open>1e160\<close> and \<open>-1e160\<close> the square of
  the grade deviation overflows and extraction raises \<^verbatim>\<open>OverflowError\<close>.
\<close>

theorem extract_features_overflow_counterexample:
  "overflow_route \<noteq> [] \<and>
   map Distance_km overflow_route = [0, 1] \<and>
   map Cumulative_Elevation_Gain_m overflow_route = [0, 0] \<and>
   extract_features ''route_data.csv'' overflow_route = Inl OverflowError"
  using overflow_route_extract[of "''route_data.csv''"]
  by (simp add: overflow_route_def)

text \<open>
  C7, amended. For a non-empty route of finite cells whose distances and cumulative gains
  are all non-negative, every feature vector that extraction returns satisfies the
  invariant: the elevation range is the maximum minus the minimum elevation and is not
  negative, both steep shares lie in \<open>[0, 1]\<close>, and total distance, total gain and
  km-effort are not negative.
\<close>

theorem extract_features_invariant:
  assumes "rows \<noteq> []"
    "\<forall>r \<in> set rows. 0 \<le> Distance_km r \<and> 0 \<le> Cumulative_Elevation_Gain_m r"
    "extract_features p rows = Inr f"
  shows "\<exists>er mx mn s10 s20 td tg ke.
           f ''elev_range_m'' = Some er \<and> f ''max_elev_m'' = Some mx \<and>
           f ''min_elev_m'' = Some mn \<and> er = mx - mn \<and> 0 \<le> er \<and>
           f ''steep10_share'' = Some s10 \<and> 0 \<le> s10 \<and> s10 \<le> 1 \<and>
           f ''steep20_share'' = Some s20 \<and> 0 \<le> s20 \<and> s20 \<le> 1 \<and>
           f ''total_distance_km'' = Some td \<and> 0 \<le> td \<and>
           f ''total_elev_gain_m'' = Some tg \<and> 0 \<le> tg \<and>
           f ''km_effort'' = Some ke \<and> 0 \<le> ke"
proof (rule extract_features_cases[OF assms(1), of p])
  assume "extract_features p rows = Inl OverflowError"
  with assms(3) show ?thesis by simp
next
  fix td tg mx mn ag sd s10 s20 d
  assume td: "max_seq (map Distance_km rows) = Inr td"
    and tg: "max_seq (map Cumulative_Elevation_Gain_m rows) = Inr tg"
    and mx: "max_seq (map Elevation_m rows) = Inr mx"
    and mn: "min_seq (map Elevation_m rows) = Inr mn"
    and s: "0 \<le> s10" "s10 \<le> 1" "0 \<le> s20" "s20 \<le> 1"
    and e: "extract_features p rows = Inr (map_of
       [(''total_distance_km'', td),
        (''total_elev_gain_m'', tg),
        (''km_effort'', td + tg / 100),
        (''max_elev_m'', mx),
        (''min_elev_m'', mn),
        (''elev_range_m'', mx - mn),
        (''avg_grade'', ag),
        (''std_grade'', sd),
        (''steep10_share'', s10),
        (''steep20_share'', s20),
        (''sinuosity'', if d > 0 then td / d else 1)])"
  have f: "f = map_of
       [(''total_distance_km'', td),
        (''total_elev_gain_m'', tg),
        (''km_effort'', td + tg / 100),
        (''max_elev_m'', mx),
        (''min_elev_m'', mn),
        (''elev_range_m'', mx - mn),
        (''avg_grade'', ag),
        (''std_grade'', sd),
        (''steep10_share'', s10),
        (''steep20_share'', s20),
        (''sinuosity'', if d > 0 then td / d else 1)]"
    using e assms(3) by simp
  have ne: "map Distance_km rows \<noteq> []" "map Cumulative_Elevation_Gain_m rows \<noteq> []"
    "map Elevation_m rows \<noteq> []" using assms(1) by simp_all
  have "td \<in> set (map Distance_km rows)"
    using max_seq_Inr[OF ne(1)] td by auto
  then have td0: "0 \<le> td" using assms(2) by auto
  have "tg \<in> set (map Cumulative_Elevation_Gain_m rows)"
    using max_seq_Inr[OF ne(2)] tg by auto
  then have tg0: "0 \<le> tg" using assms(2) by auto
  have "hd (map Elevation_m rows) \<le> mx" using max_seq_Inr[OF ne(3)] mx by auto
  moreover have "mn \<le> hd (map Elevation_m rows)" using min_seq_Inr[OF ne(3)] mn by auto
  ultimately have rg: "0 \<le> mx - mn" by simp
  have ke: "0 \<le> td + tg / 100" using td0 tg0 by simp
  show ?thesis
    unfolding f using rg s td0 tg0 ke by simp
qed

theorem extract_features_invariant_witness:
  "scenario_a \<noteq> [] \<and>
   list_all (\<lambda>r. 0 \<le> Distance_km r \<and> 0 \<le> Cumulative_Elevation_Gain_m r) scenario_a \<and>
   (\<exists>f er mx mn s10 s20 td tg ke.
           extract_features ''route_data.csv'' scenario_a = Inr f \<and>
           f ''elev_range_m'' = Some er \<and> f ''max_elev_m'' = Some mx \<and>
           f ''min_elev_m'' = Some mn \<and> er = mx - mn \<and> 0 \<le> er \<and>
           f ''steep10_share'' = Some s10 \<and> 0 \<le> s10 \<and> s10 \<le> 1 \<and>
           f ''steep20_share'' = Some s20 \<and> 0 \<le> s20 \<and> s20 \<le> 1 \<and>
           f ''total_distance_km'' = Some td \<and> 0 \<le> td \<and>
           f ''total_elev_gain_m'' = Some tg \<and> 0 \<le> tg \<and>
           f ''km_effort'' = Some ke \<and> 0 \<le> ke)"
proof -
  obtain f where f: "extract_features ''route_data.csv'' scenario_a = Inr f"
    using scenario_a_extract[of "''route_data.csv''"] by blast
  have ne: "scenario_a \<noteq> []"
    by (simp add: scenario_a_def)
  have pos: "\<forall>r \<in> set scenario_a. 0 \<le> Distance_km r \<and> 0 \<le> Cumulative_Elevation_Gain_m r"
    by (simp add: scenario_a_def)
  have la: "list_all (\<lambda>r. 0 \<le> Distance_km r \<and> 0 \<le> Cumulative_Elevation_Gain_m r) scenario_a"
    using pos by (simp add: list_all_iff)
  show ?thesis
    using extract_features_invariant[OF ne pos f] f ne la by blast
qed

end
